theory Spec2Isabelle
  imports Main "HOL-Library.Word" "HOL-Library.AList"
begin

section \<open>Data model of xfrd-notify.c\<close>

text \<open>
  The engine of \<^verbatim>\<open>xfrd-notify.c\<close> keeps one \<^verbatim>\<open>struct notify_zone_t\<close> per zone in a
  red-black tree keyed by the apex name. The struct declarations live in headers
  (\<^verbatim>\<open>xfrd-notify.h\<close>, \<^verbatim>\<open>xfrd.h\<close>, \<^verbatim>\<open>options.h\<close>, \<^verbatim>\<open>netio.h\<close>, \<^verbatim>\<open>packet.h\<close>) that are not
  part of the source file; the records below carry exactly the fields that the functions
  of \<^verbatim>\<open>xfrd-notify.c\<close> read or write. Calls of \<^verbatim>\<open>log_msg\<close> are diagnostics and are left
  out of the model.
\<close>

type_synonym dname = string

text \<open>
  Modelled from the spec: \<^verbatim>\<open>struct xfrd_soa\<close> (declared in \<^verbatim>\<open>xfrd.h\<close>) is a SoaSnapshot,
  "serial number and associated SOA fields". The code reads only \<^verbatim>\<open>serial\<close> and copies the
  struct as a block, so the other fields are kept as uninterpreted bytes.
\<close>

record xfrd_soa =
  serial :: "32 word"
  soa_fields :: "8 word list"

text \<open>
  Modelled from the spec: \<^verbatim>\<open>acl_options_t\<close> (declared in \<^verbatim>\<open>options.h\<close>) is a NotifyTarget,
  an address specifier with an optional reference to a signing key. The \<^verbatim>\<open>next\<close> pointer
  of the C struct is the tail of the HOL list that holds the entry: a pointer into the
  linked list is the suffix that starts at the entry, and the null pointer is \<open>[]\<close>.
\<close>

record acl_options =
  ip_address_spec :: string
  key_options :: "string option"

record zone_options =
  name :: string
  notify :: "acl_options list"

record timespec =
  tv_sec :: int
  tv_nsec :: int

text \<open>
  The \<^verbatim>\<open>timeout\<close> member of a netio handler is a pointer: in this file it is either null
  or the address of the zone's own \<^verbatim>\<open>notify_timeout\<close>.
\<close>

datatype timespec_ptr = Null | NotifyTimeout

record netio_handler =
  fd :: int
  timeout :: timespec_ptr

text \<open>
  The declaration of \<^verbatim>\<open>notify_retry\<close> is in the absent header; it is a small unsigned
  counter. It is modelled as a natural number: every statement below that depends on its
  value keeps it at most \<open>XFRD_NOTIFY_MAX_NUM + 1\<close>, far from any wrap-around.
\<close>

record notify_zone =
  apex :: dname
  apex_str :: string
  options :: zone_options
  current_soa :: xfrd_soa
  notify_send_handler :: netio_handler
  notify_timeout :: timespec
  notify_current :: "acl_options list"
  notify_retry :: nat
  notify_query_id :: "16 word"

text \<open>
  Modelled from the spec: the packet buffer with the header accessors of \<^verbatim>\<open>packet.h\<close>
  (\<^verbatim>\<open>ID\<close>, \<^verbatim>\<open>QR\<close>, \<^verbatim>\<open>OPCODE\<close>, \<^verbatim>\<open>RCODE\<close>, \<^verbatim>\<open>AA_SET\<close>, \<^verbatim>\<open>ANCOUNT_SET\<close>), which are not in
  the source file. A packet is the header fields the code touches, the question, the
  answer section and the signature added by the signer.
\<close>

record packet =
  pkt_id :: "16 word"
  pkt_qr :: bool
  pkt_opcode :: "4 word"
  pkt_aa :: bool
  pkt_rcode :: "4 word"
  pkt_ancount :: "16 word"
  pkt_question :: "dname \<times> 16 word \<times> 16 word"
  pkt_answer :: "(dname \<times> xfrd_soa) list"
  pkt_tsig :: "string option"

text \<open>
  Modelled from the spec: the protocol constants of \<^verbatim>\<open>dns.h\<close> and \<^verbatim>\<open>packet.h\<close>, with
  the values of RFC 1035 and RFC 1996.
\<close>

definition OPCODE_QUERY :: "4 word" where "OPCODE_QUERY = 0"
definition OPCODE_NOTIFY :: "4 word" where "OPCODE_NOTIFY = 4"
definition RCODE_OK :: "4 word" where "RCODE_OK = 0"
definition RCODE_IMPL :: "4 word" where "RCODE_IMPL = 4"
definition TYPE_SOA :: "16 word" where "TYPE_SOA = 6"
definition CLASS_IN :: "16 word" where "CLASS_IN = 1"

definition XFRD_NOTIFY_RETRY_TIMOUT :: int where "XFRD_NOTIFY_RETRY_TIMOUT = 15"
definition XFRD_NOTIFY_MAX_NUM :: nat where "XFRD_NOTIFY_MAX_NUM = 5"

datatype netio_event = NETIO_EVENT_READ | NETIO_EVENT_TIMEOUT

text \<open>
  What one call of the dispatcher gets from its surroundings: the clock
  (\<^verbatim>\<open>xfrd_time()\<close>), the identifier that \<^verbatim>\<open>xfrd_setup_packet\<close> gives the new query, the
  descriptor returned by \<^verbatim>\<open>xfrd_send_udp\<close> (\<open>-1\<close> on failure) and the datagram read by
  \<^verbatim>\<open>xfrd_udp_read_packet\<close> (\<open>None\<close> when it returns 0).
\<close>

record env =
  now :: int
  query_id :: "16 word"
  send_fd :: int
  read_pkt :: "packet option"

text \<open>The system calls made by the engine, in the order they happen.\<close>

datatype io_event =
  Close int
| SendUdp acl_options packet int
| ReadUdp int

datatype error = AssertionFailed | NullPointer

type_synonym rbtree = "(dname \<times> notify_zone) list"

section \<open>External collaborators\<close>

text \<open>
  Modelled from the spec: \<^verbatim>\<open>xfrd_setup_packet\<close> (in \<^verbatim>\<open>xfrd.c\<close>) is the query builder,
  "given apex name, record type, record class, produces an empty query buffer" with an
  assigned identifier.
\<close>

definition xfrd_setup_packet :: "16 word \<Rightarrow> 16 word \<Rightarrow> 16 word \<Rightarrow> dname \<Rightarrow> packet" where
  "xfrd_setup_packet ident type klass dn =
     \<lparr> pkt_id = ident, pkt_qr = False, pkt_opcode = OPCODE_QUERY, pkt_aa = False,
       pkt_rcode = RCODE_OK, pkt_ancount = 0, pkt_question = (dn, type, klass),
       pkt_answer = [], pkt_tsig = None \<rparr>"

text \<open>
  Modelled from the spec: \<^verbatim>\<open>xfrd_write_soa_buffer\<close> (in \<^verbatim>\<open>xfrd.c\<close>) appends one SOA record
  for the apex to the packet.
\<close>

definition xfrd_write_soa_buffer :: "packet \<Rightarrow> dname \<Rightarrow> xfrd_soa \<Rightarrow> packet" where
  "xfrd_write_soa_buffer p dn soa = p\<lparr>pkt_answer := pkt_answer p @ [(dn, soa)]\<rparr>"

text \<open>
  Modelled from the spec: \<^verbatim>\<open>xfrd_tsig_sign_request\<close> (in \<^verbatim>\<open>xfrd-tcp.c\<close>) is the signer,
  which adds an authenticating record made with the key of the target.
\<close>

definition xfrd_tsig_sign_request :: "packet \<Rightarrow> acl_options \<Rightarrow> packet" where
  "xfrd_tsig_sign_request p acl = p\<lparr>pkt_tsig := key_options acl\<rparr>"

section \<open>The functions of xfrd-notify.c\<close>

definition notify_disable ::
  "notify_zone \<Rightarrow> io_event list \<Rightarrow> notify_zone \<times> io_event list" where
  "notify_disable zone io =
     (let io1 = (if fd (notify_send_handler zone) \<noteq> -1
                 then io @ [Close (fd (notify_send_handler zone))] else io);
          zone1 = zone\<lparr>notify_current := []\<rparr>;
          zone2 = zone1\<lparr>notify_send_handler := (notify_send_handler zone1)\<lparr>fd := -1\<rparr>\<rparr>;
          zone3 = zone2\<lparr>notify_send_handler := (notify_send_handler zone2)\<lparr>timeout := Null\<rparr>\<rparr>
      in (zone3, io1))"

text \<open>The result is the C \<^verbatim>\<open>int\<close>: 1 when the send to the current target is done.\<close>

definition xfrd_handle_notify_reply :: "notify_zone \<Rightarrow> packet \<Rightarrow> int" where
  "xfrd_handle_notify_reply zone pkt =
     (if pkt_opcode pkt \<noteq> OPCODE_NOTIFY \<or> \<not> pkt_qr pkt then 0
      else if pkt_id pkt \<noteq> notify_query_id zone then 0
      else if pkt_rcode pkt \<noteq> RCODE_OK then
        (if pkt_rcode pkt = RCODE_IMPL then 1 else 0)
      else 1)"

text \<open>
  \<^verbatim>\<open>zone->notify_current->next\<close> dereferences the current target: on a null pointer the
  program crashes, which the model reports as \<open>NullPointer\<close>.
\<close>

definition xfrd_notify_next ::
  "notify_zone \<Rightarrow> io_event list \<Rightarrow> error + notify_zone \<times> io_event list" where
  "xfrd_notify_next zone io =
     (case notify_current zone of
        [] \<Rightarrow> Inl NullPointer
      | acl # next \<Rightarrow>
          (let zone1 = zone\<lparr>notify_current := next\<rparr>;
               zone2 = zone1\<lparr>notify_retry := 0\<rparr>
           in if notify_current zone2 = [] then Inr (notify_disable zone2 io)
              else Inr (zone2, io)))"

text \<open>
  The build with \<^verbatim>\<open>TSIG\<close> defined is the one modelled (\<^verbatim>\<open>config.h\<close> is not part of the
  source file). The current target is dereferenced for its key; a null pointer there is
  reported as \<open>NullPointer\<close>.
\<close>

definition xfrd_notify_send_udp ::
  "env \<Rightarrow> notify_zone \<Rightarrow> io_event list \<Rightarrow> error + notify_zone \<times> io_event list" where
  "xfrd_notify_send_udp e zone io =
     (case notify_current zone of
        [] \<Rightarrow> Inl NullPointer
      | acl # next \<Rightarrow>
          (let io1 = (if fd (notify_send_handler zone) \<noteq> -1
                      then io @ [Close (fd (notify_send_handler zone))] else io);
               zone1 = zone\<lparr>notify_send_handler := (notify_send_handler zone)\<lparr>fd := -1\<rparr>\<rparr>;
               zone2 = zone1\<lparr>notify_timeout :=
                         (notify_timeout zone1)\<lparr>tv_sec := now e + XFRD_NOTIFY_RETRY_TIMOUT\<rparr>\<rparr>;
               p0 = xfrd_setup_packet (query_id e) TYPE_SOA CLASS_IN (apex zone2);
               zone3 = zone2\<lparr>notify_query_id := pkt_id p0\<rparr>;
               p1 = p0\<lparr>pkt_opcode := OPCODE_NOTIFY\<rparr>;
               p2 = p1\<lparr>pkt_aa := True\<rparr>;
               p3 = (if serial (current_soa zone3) \<noteq> 0
                     then xfrd_write_soa_buffer (p2\<lparr>pkt_ancount := 1\<rparr>) (apex zone3)
                            (current_soa zone3)
                     else p2);
               p4 = (if key_options acl \<noteq> None then xfrd_tsig_sign_request p3 acl else p3);
               io2 = io1 @ [SendUdp acl p4 (send_fd e)];
               zone4 = zone3\<lparr>notify_send_handler :=
                         (notify_send_handler zone3)\<lparr>fd := send_fd e\<rparr>\<rparr>
           in Inr (zone4, io2)))"

text \<open>
  The dispatcher \<^verbatim>\<open>xfrd_handle_notify_send\<close>, in two parts: the transition made for
  the event (lines 170 to 185: the reply that was read, or the timeout), and the function
  itself, which checks that a target is current, makes the transition and sends again
  when a target is still current. Both assertions of the C function are branches of the
  model. The handler passed by the event loop is the zone's own
  \<^verbatim>\<open>notify_send_handler\<close>.
\<close>

definition notify_transition ::
  "env \<Rightarrow> notify_zone \<Rightarrow> io_event list \<Rightarrow> netio_event set \<Rightarrow>
     error + notify_zone \<times> io_event list" where
  "notify_transition e zone io event_types =
     (if NETIO_EVENT_READ \<in> event_types then
        (if fd (notify_send_handler zone) = -1 then Inl AssertionFailed
         else
           (let io1 = io @ [ReadUdp (fd (notify_send_handler zone))]
            in case read_pkt e of
                 None \<Rightarrow> Inr (zone, io1)
               | Some pkt \<Rightarrow>
                   if xfrd_handle_notify_reply zone pkt \<noteq> 0
                   then xfrd_notify_next zone io1
                   else Inr (zone, io1)))
      else if NETIO_EVENT_TIMEOUT \<in> event_types then
        (let zone1 = zone\<lparr>notify_retry := notify_retry zone + 1\<rparr>
         in if notify_retry zone1 > XFRD_NOTIFY_MAX_NUM
            then xfrd_notify_next zone1 io
            else Inr (zone1, io))
      else Inr (zone, io))"

definition xfrd_handle_notify_send ::
  "env \<Rightarrow> notify_zone \<Rightarrow> io_event list \<Rightarrow> netio_event set \<Rightarrow>
     error + notify_zone \<times> io_event list" where
  "xfrd_handle_notify_send e zone io event_types =
     (if notify_current zone = [] then Inl AssertionFailed
      else
        (case notify_transition e zone io event_types of
           Inl err \<Rightarrow> Inl err
         | Inr (zone2, io2) \<Rightarrow>
             if notify_current zone2 \<noteq> [] then xfrd_notify_send_udp e zone2 io2
             else Inr (zone2, io2)))"

text \<open>
  \<^verbatim>\<open>xfrd_send_notify\<close>: the lookup in the tree, and the assignments to the zone that was
  found (lines 201 to 210), written as a function of their own.
\<close>

definition xfrd_send_notify_zone :: "int \<Rightarrow> xfrd_soa \<Rightarrow> notify_zone \<Rightarrow> notify_zone" where
  "xfrd_send_notify_zone t new_soa zone =
     (if notify (options zone) = [] then zone
      else
        (let zone1 = zone\<lparr>current_soa := new_soa\<rparr>;
             zone2 = zone1\<lparr>notify_retry := 0\<rparr>;
             zone3 = zone2\<lparr>notify_current := notify (options zone2)\<rparr>;
             zone4 = zone3\<lparr>notify_send_handler :=
                       (notify_send_handler zone3)\<lparr>timeout := NotifyTimeout\<rparr>\<rparr>;
             zone5 = zone4\<lparr>notify_timeout := (notify_timeout zone4)\<lparr>tv_sec := t\<rparr>\<rparr>;
             zone6 = zone5\<lparr>notify_timeout := (notify_timeout zone5)\<lparr>tv_nsec := 0\<rparr>\<rparr>
         in zone6))"

definition xfrd_send_notify ::
  "int \<Rightarrow> rbtree \<Rightarrow> io_event list \<Rightarrow> dname \<Rightarrow> xfrd_soa \<Rightarrow> error + rbtree \<times> io_event list" where
  "xfrd_send_notify t tree io dn new_soa =
     (case map_of tree dn of
        None \<Rightarrow> Inl AssertionFailed
      | Some zone \<Rightarrow> Inr (AList.update dn (xfrd_send_notify_zone t new_soa zone) tree, io))"

fun close_notify_fds :: "rbtree \<Rightarrow> io_event list \<Rightarrow> rbtree \<times> io_event list" where
  "close_notify_fds [] io = ([], io)"
| "close_notify_fds ((k, zone) # rest) io =
     (if fd (notify_send_handler zone) \<noteq> -1 then
        (let io1 = io @ [Close (fd (notify_send_handler zone))];
             zone1 = zone\<lparr>notify_send_handler := (notify_send_handler zone)\<lparr>fd := -1\<rparr>\<rparr>;
             (rest1, io2) = close_notify_fds rest io1
         in ((k, zone1) # rest1, io2))
      else
        (let (rest1, io2) = close_notify_fds rest io
         in ((k, zone) # rest1, io2)))"

section \<open>Runs of the event loop and observations\<close>

text \<open>
  A session driven by timer expiries only: the event loop calls the dispatcher with
  \<open>NETIO_EVENT_TIMEOUT\<close> once per element of the list of environments, and stops at the
  first failure.
\<close>

fun timer_run ::
  "env list \<Rightarrow> notify_zone \<Rightarrow> io_event list \<Rightarrow> error + notify_zone \<times> io_event list" where
  "timer_run [] zone io = Inr (zone, io)"
| "timer_run (e # es) zone io =
     (case xfrd_handle_notify_send e zone io {NETIO_EVENT_TIMEOUT} of
        Inl err \<Rightarrow> Inl err
      | Inr (zone1, io1) \<Rightarrow> timer_run es zone1 io1)"

text \<open>
  The retries of such a run: the timer expiries after which the session is still on the
  target it had before the expiry (the expiry was answered by sending again to the same
  target).
\<close>

fun timer_retries :: "env list \<Rightarrow> notify_zone \<Rightarrow> io_event list \<Rightarrow> nat" where
  "timer_retries [] zone io = 0"
| "timer_retries (e # es) zone io =
     (case xfrd_handle_notify_send e zone io {NETIO_EVENT_TIMEOUT} of
        Inl err \<Rightarrow> 0
      | Inr (zone1, io1) \<Rightarrow>
          (if notify_current zone1 = notify_current zone then 1 else 0)
          + timer_retries es zone1 io1)"

fun is_send :: "io_event \<Rightarrow> bool" where
  "is_send (SendUdp acl p r) = True"
| "is_send (Close f) = False"
| "is_send (ReadUdp f) = False"

definition sends :: "io_event list \<Rightarrow> nat" where
  "sends io = length (filter is_send io)"

text \<open>The system calls of closing every open descriptor of a tree, in tree order.\<close>

fun open_fds :: "rbtree \<Rightarrow> int list" where
  "open_fds [] = []"
| "open_fds ((k, zone) # rest) =
     (if fd (notify_send_handler zone) \<noteq> -1
      then fd (notify_send_handler zone) # open_fds rest else open_fds rest)"

text \<open>The zone that a call returns, if it returns.\<close>

definition zone_of :: "error + notify_zone \<times> io_event list \<Rightarrow> notify_zone option" where
  "zone_of r = (case r of Inl err \<Rightarrow> None | Inr (zone, io) \<Rightarrow> Some zone)"

text \<open>The zone stored under a name in the tree that a call returns, if it returns.\<close>

definition tree_zone_of ::
  "error + rbtree \<times> io_event list \<Rightarrow> dname \<Rightarrow> notify_zone option" where
  "tree_zone_of r dn = (case r of Inl err \<Rightarrow> None | Inr (tree, io) \<Rightarrow> map_of tree dn)"

text \<open>The current target is none exactly when the socket is absent.\<close>

definition idle_iff_no_socket :: "notify_zone \<Rightarrow> bool" where
  "idle_iff_no_socket zone =
     ((notify_current zone = []) = (fd (notify_send_handler zone) = -1))"

text \<open>A session without a current target has no socket.\<close>

definition idle_no_socket :: "notify_zone \<Rightarrow> bool" where
  "idle_no_socket zone =
     (notify_current zone = [] \<longrightarrow> fd (notify_send_handler zone) = -1)"

text \<open>A session with a current target has its timer registered with the event loop.\<close>

definition active_has_timer :: "notify_zone \<Rightarrow> bool" where
  "active_has_timer zone =
     (notify_current zone \<noteq> [] \<longrightarrow> timeout (notify_send_handler zone) = NotifyTimeout)"

text \<open>Concrete zones and environments on which the statements below are exercised.\<close>

definition acl1 :: acl_options where
  "acl1 = \<lparr> ip_address_spec = ''192.0.2.1'', key_options = None \<rparr>"

definition acl2 :: acl_options where
  "acl2 = \<lparr> ip_address_spec = ''192.0.2.2'', key_options = Some ''key2'' \<rparr>"

definition soa0 :: xfrd_soa where
  "soa0 = \<lparr> serial = 0, soa_fields = [] \<rparr>"

definition soa5 :: xfrd_soa where
  "soa5 = \<lparr> serial = 5, soa_fields = [] \<rparr>"

definition idle_zone :: "acl_options list \<Rightarrow> notify_zone" where
  "idle_zone acls =
     \<lparr> apex = ''example.org.'', apex_str = ''example.org.'',
       options = \<lparr> name = ''example.org.'', notify = acls \<rparr>,
       current_soa = soa0,
       notify_send_handler = \<lparr> fd = -1, timeout = Null \<rparr>,
       notify_timeout = \<lparr> tv_sec = 0, tv_nsec = 0 \<rparr>,
       notify_current = [], notify_retry = 0, notify_query_id = 0 \<rparr>"

definition active_zone :: "acl_options list \<Rightarrow> notify_zone" where
  "active_zone acls =
     (idle_zone acls)\<lparr> current_soa := soa5,
       notify_send_handler := \<lparr> fd = 7, timeout = NotifyTimeout \<rparr>,
       notify_timeout := \<lparr> tv_sec = 115, tv_nsec = 0 \<rparr>,
       notify_current := acls, notify_retry := 2, notify_query_id := 41 \<rparr>"

definition env1 :: env where
  "env1 = \<lparr> now = 100, query_id = 42, send_fd = 8, read_pkt = None \<rparr>"

definition env_fail :: env where
  "env_fail = \<lparr> now = 100, query_id = 42, send_fd = -1, read_pkt = None \<rparr>"

definition reply :: "16 word \<Rightarrow> 4 word \<Rightarrow> packet" where
  "reply ident rc =
     \<lparr> pkt_id = ident, pkt_qr = True, pkt_opcode = OPCODE_NOTIFY, pkt_aa = True,
       pkt_rcode = rc, pkt_ancount = 0,
       pkt_question = (''example.org.'', TYPE_SOA, CLASS_IN),
       pkt_answer = [], pkt_tsig = None \<rparr>"

section \<open>The reply validator\<close>

text \<open>
  C2. For every zone and reply packet, \<^verbatim>\<open>xfrd_handle_notify_reply\<close> answers 1 (advance:
  the reply is an acknowledgement, or the target does not implement NOTIFY) exactly when
  the operation code is NOTIFY, the query-response bit is set, the identifier equals the
  pending query id and the response code is success or "not implemented"; in every other
  case it answers 0 (reject). It is a function of the zone and the packet alone: it
  returns no new zone and no system call.
\<close>

theorem reply_validator_advance_iff:
  "(xfrd_handle_notify_reply zone pkt \<noteq> 0) =
     (pkt_opcode pkt = OPCODE_NOTIFY \<and> pkt_qr pkt \<and> pkt_id pkt = notify_query_id zone \<and>
      (pkt_rcode pkt = RCODE_OK \<or> pkt_rcode pkt = RCODE_IMPL))
   \<and> (xfrd_handle_notify_reply zone pkt = 1 \<or> xfrd_handle_notify_reply zone pkt = 0)"
  by (auto simp: xfrd_handle_notify_reply_def)

theorem reply_validator_advance_iff_witness:
  "xfrd_handle_notify_reply (active_zone [acl1]) (reply 41 RCODE_OK) = 1 \<and>
   xfrd_handle_notify_reply (active_zone [acl1]) (reply 41 RCODE_IMPL) = 1 \<and>
   xfrd_handle_notify_reply (active_zone [acl1]) (reply 41 5) = 0 \<and>
   xfrd_handle_notify_reply (active_zone [acl1]) (reply 40 RCODE_OK) = 0 \<and>
   xfrd_handle_notify_reply (active_zone [acl1]) ((reply 41 RCODE_OK)\<lparr>pkt_qr := False\<rparr>) = 0"
  using reply_validator_advance_iff [of "active_zone [acl1]" "reply 41 RCODE_OK"]
    reply_validator_advance_iff [of "active_zone [acl1]" "reply 41 RCODE_IMPL"]
    reply_validator_advance_iff [of "active_zone [acl1]" "reply 41 5"]
    reply_validator_advance_iff [of "active_zone [acl1]" "reply 40 RCODE_OK"]
    reply_validator_advance_iff [of "active_zone [acl1]" "(reply 41 RCODE_OK)\<lparr>pkt_qr := False\<rparr>"]
  by (auto simp: active_zone_def idle_zone_def reply_def RCODE_OK_def RCODE_IMPL_def)

section \<open>Basic facts about the functions\<close>

subsection \<open>Send and advance\<close>

lemma send_udp_Inr:
  "notify_current zone \<noteq> [] \<Longrightarrow>
   \<exists>zone' io'. xfrd_notify_send_udp e zone io = Inr (zone', io')"
  by (simp add: xfrd_notify_send_udp_def Let_def split: list.splits)

lemma send_udp_fields:
  assumes "xfrd_notify_send_udp e zone io = Inr (zone', io')"
  shows "notify_current zone' = notify_current zone"
    and "notify_retry zone' = notify_retry zone"
    and "notify_current zone' \<noteq> []"
    and "fd (notify_send_handler zone') = send_fd e"
    and "timeout (notify_send_handler zone') = timeout (notify_send_handler zone)"
    and "tv_sec (notify_timeout zone') = now e + 15"
    and "tv_nsec (notify_timeout zone') = tv_nsec (notify_timeout zone)"
    and "notify_query_id zone' = query_id e"
    and "options zone' = options zone"
    and "current_soa zone' = current_soa zone"
    and "apex zone' = apex zone"
    and "sends io' = Suc (sends io)"
  using assms
  by (auto simp: xfrd_notify_send_udp_def Let_def xfrd_setup_packet_def sends_def
      XFRD_NOTIFY_RETRY_TIMOUT_def split: list.splits)

lemma send_udp_io:
  "notify_current zone = acl # rest \<Longrightarrow>
   \<exists>zone' p. xfrd_notify_send_udp e zone io =
       Inr (zone', io @ (if fd (notify_send_handler zone) \<noteq> -1
                         then [Close (fd (notify_send_handler zone))] else [])
                      @ [SendUdp acl p (send_fd e)]) \<and>
     pkt_id p = query_id e \<and> pkt_opcode p = OPCODE_NOTIFY \<and> pkt_aa p"
  by (auto simp: xfrd_notify_send_udp_def Let_def xfrd_setup_packet_def
      xfrd_write_soa_buffer_def xfrd_tsig_sign_request_def)

lemma notify_next_fields:
  assumes "xfrd_notify_next zone io = Inr (zone', io')"
  shows "notify_current zone' = tl (notify_current zone)"
    and "notify_retry zone' = 0"
    and "notify_current zone' = [] \<longrightarrow> fd (notify_send_handler zone') = -1"
    and "\<exists>pre. io' = io @ pre"
  using assms
  by (auto simp: xfrd_notify_next_def notify_disable_def Let_def split: list.splits if_splits)

lemma notify_next_conj:
  "xfrd_notify_next zone io = Inr (zone', io') \<Longrightarrow>
   notify_current zone' = tl (notify_current zone) \<and> notify_retry zone' = 0 \<and>
   (notify_current zone' = [] \<longrightarrow> fd (notify_send_handler zone') = -1) \<and>
   (\<exists>pre. io' = io @ pre)"
  by (auto simp: xfrd_notify_next_def notify_disable_def Let_def split: list.splits if_splits)

lemma notify_next_Inr:
  "notify_current zone \<noteq> [] \<Longrightarrow> \<exists>zone' io'. xfrd_notify_next zone io = Inr (zone', io')"
  by (auto simp: xfrd_notify_next_def Let_def split: list.splits)

lemma transition_fields:
  assumes "notify_transition e zone io evs = Inr (zone2, io2)" and "notify_current zone \<noteq> []"
  shows "\<exists>pre. io2 = io @ pre"
    and "notify_current zone2 = [] \<longrightarrow>
           fd (notify_send_handler zone2) = -1 \<and> notify_retry zone2 = 0"
    and "notify_retry zone2 = 0 \<or> notify_retry zone2 = notify_retry zone \<or>
           (notify_retry zone2 = notify_retry zone + 1 \<and> notify_retry zone2 \<le> 5)"
  using assms
  unfolding notify_transition_def Let_def
  by (auto simp: XFRD_NOTIFY_MAX_NUM_def split: if_splits option.splits
      dest!: notify_next_conj)

lemma transition_Inr:
  "notify_current zone \<noteq> [] \<Longrightarrow>
   (NETIO_EVENT_READ \<in> evs \<Longrightarrow> fd (notify_send_handler zone) \<noteq> -1) \<Longrightarrow>
   \<exists>zone2 io2. notify_transition e zone io evs = Inr (zone2, io2)"
  unfolding notify_transition_def Let_def
  by (auto split: option.splits intro: notify_next_Inr)

lemma dispatcher_split:
  assumes "xfrd_handle_notify_send e zone io evs = Inr (zone', io')"
  shows "notify_current zone \<noteq> [] \<and>
         (\<exists>zone2 io2. notify_transition e zone io evs = Inr (zone2, io2) \<and>
            (if notify_current zone2 \<noteq> [] then xfrd_notify_send_udp e zone2 io2 = Inr (zone', io')
             else zone' = zone2 \<and> io' = io2))"
  using assms
  unfolding xfrd_handle_notify_send_def
  by (auto split: if_splits sum.splits prod.splits)

lemma dispatcher_Inr:
  assumes "notify_current zone \<noteq> []"
    and "NETIO_EVENT_READ \<in> evs \<Longrightarrow> fd (notify_send_handler zone) \<noteq> -1"
  shows "\<exists>zone' io'. xfrd_handle_notify_send e zone io evs = Inr (zone', io')"
proof -
  from transition_Inr [OF assms] obtain zone2 io2
    where t: "notify_transition e zone io evs = Inr (zone2, io2)" by blast
  show ?thesis
  proof (cases "notify_current zone2 = []")
    case True
    with t assms(1) show ?thesis by (simp add: xfrd_handle_notify_send_def)
  next
    case False
    from send_udp_Inr [OF False] obtain zone' io'
      where "xfrd_notify_send_udp e zone2 io2 = Inr (zone', io')" by blast
    with t assms(1) False show ?thesis by (simp add: xfrd_handle_notify_send_def)
  qed
qed

lemma timer_step_retry:
  "notify_current zone \<noteq> [] \<Longrightarrow> notify_retry zone < 5 \<Longrightarrow>
   xfrd_handle_notify_send e zone io {NETIO_EVENT_TIMEOUT} =
     xfrd_notify_send_udp e (zone\<lparr>notify_retry := notify_retry zone + 1\<rparr>) io"
  by (simp add: xfrd_handle_notify_send_def notify_transition_def Let_def
      XFRD_NOTIFY_MAX_NUM_def)

lemma timer_step_advance:
  "notify_current zone = acl # b # rest \<Longrightarrow> 5 \<le> notify_retry zone \<Longrightarrow>
   xfrd_handle_notify_send e zone io {NETIO_EVENT_TIMEOUT} =
     xfrd_notify_send_udp e (zone\<lparr>notify_current := b # rest, notify_retry := 0\<rparr>) io"
  by (simp add: xfrd_handle_notify_send_def notify_transition_def Let_def
      XFRD_NOTIFY_MAX_NUM_def xfrd_notify_next_def)

lemma timer_step_idle:
  "notify_current zone = [acl] \<Longrightarrow> 5 \<le> notify_retry zone \<Longrightarrow>
   xfrd_handle_notify_send e zone io {NETIO_EVENT_TIMEOUT} =
     Inr (notify_disable (zone\<lparr>notify_current := [], notify_retry := 0\<rparr>) io)"
  by (simp add: xfrd_handle_notify_send_def notify_transition_def Let_def
      XFRD_NOTIFY_MAX_NUM_def xfrd_notify_next_def notify_disable_def)

subsection \<open>Runs of timer expiries\<close>

lemma timer_run_append:
  "timer_run (es @ fs) zone io =
     (case timer_run es zone io of Inl err \<Rightarrow> Inl err
      | Inr (zone1, io1) \<Rightarrow> timer_run fs zone1 io1)"
  by (induction es arbitrary: zone io) (auto split: sum.splits)

lemma timer_run_same_target:
  "notify_current zone \<noteq> [] \<Longrightarrow> notify_retry zone + length es \<le> 5 \<Longrightarrow>
   \<exists>zone' io'. timer_run es zone io = Inr (zone', io') \<and>
     notify_current zone' = notify_current zone \<and>
     notify_retry zone' = notify_retry zone + length es \<and>
     timer_retries es zone io = length es \<and>
     sends io' = sends io + length es"
proof (induction es arbitrary: zone io)
  case Nil
  then show ?case by simp
next
  case (Cons e es)
  let ?z = "zone\<lparr>notify_retry := notify_retry zone + 1\<rparr>"
  from Cons.prems have step: "xfrd_handle_notify_send e zone io {NETIO_EVENT_TIMEOUT} =
      xfrd_notify_send_udp e ?z io"
    by (intro timer_step_retry) auto
  from Cons.prems send_udp_Inr [of ?z e io] obtain zone1 io1
    where s: "xfrd_notify_send_udp e ?z io = Inr (zone1, io1)" by auto
  note f = send_udp_fields [OF s]
  have "notify_current zone1 \<noteq> []" using f(3) .
  moreover have "notify_retry zone1 + length es \<le> 5" using f(2) Cons.prems by simp
  ultimately obtain zone' io' where r: "timer_run es zone1 io1 = Inr (zone', io')"
      "notify_current zone' = notify_current zone1"
      "notify_retry zone' = notify_retry zone1 + length es"
      "timer_retries es zone1 io1 = length es"
      "sends io' = sends io1 + length es"
    using Cons.IH [of zone1 io1] by blast
  show ?case using step s r f(1,2,12) by simp
qed

lemma timer_run_to_idle:
  "notify_current zone \<noteq> [] \<Longrightarrow> notify_retry zone \<le> 5 \<Longrightarrow>
   length es + notify_retry zone = 6 * length (notify_current zone) \<Longrightarrow>
   \<exists>zone' io'. timer_run es zone io = Inr (zone', io') \<and>
     notify_current zone' = [] \<and> fd (notify_send_handler zone') = -1 \<and>
     timeout (notify_send_handler zone') = Null \<and>
     timer_retries es zone io + notify_retry zone = 5 * length (notify_current zone) \<and>
     sends io' + notify_retry zone + 1 = sends io + 6 * length (notify_current zone)"
proof (induction es arbitrary: zone io)
  case Nil
  then have "0 < length (notify_current zone)" by simp
  with Nil show ?case by simp
next
  case (Cons e es)
  note IH = Cons.IH and prems = Cons.prems
  show ?case
  proof (cases "notify_retry zone < 5")
    case True
    let ?z = "zone\<lparr>notify_retry := notify_retry zone + 1\<rparr>"
    from prems True have step: "xfrd_handle_notify_send e zone io {NETIO_EVENT_TIMEOUT} =
        xfrd_notify_send_udp e ?z io"
      by (intro timer_step_retry) auto
    from prems send_udp_Inr [of ?z e io] obtain zone1 io1
      where s: "xfrd_notify_send_udp e ?z io = Inr (zone1, io1)" by auto
    note f = send_udp_fields [OF s]
    have c: "notify_current zone1 = notify_current zone"
      and rr: "notify_retry zone1 = notify_retry zone + 1"
      using f(1,2) by simp_all
    have "length es + notify_retry zone1 = 6 * length (notify_current zone1)"
      using prems(3) c rr by simp
    moreover have "notify_current zone1 \<noteq> []" "notify_retry zone1 \<le> 5"
      using c rr True prems(1) by simp_all
    ultimately obtain zone' io' where
      r: "timer_run es zone1 io1 = Inr (zone', io')" "notify_current zone' = []"
        "fd (notify_send_handler zone') = -1" "timeout (notify_send_handler zone') = Null"
        "timer_retries es zone1 io1 + notify_retry zone1 = 5 * length (notify_current zone1)"
        "sends io' + notify_retry zone1 + 1 = sends io1 + 6 * length (notify_current zone1)"
      using IH [of zone1 io1] by blast
    have "timer_retries (e # es) zone io = 1 + timer_retries es zone1 io1"
      using step s c by simp
    moreover have "timer_run (e # es) zone io = Inr (zone', io')"
      using step s r(1) by simp
    ultimately show ?thesis using r(2-6) c rr f(12) by simp
  next
    case False
    with prems have r5: "notify_retry zone = 5" by simp
    from prems(1) obtain acl rest where cur: "notify_current zone = acl # rest"
      by (cases "notify_current zone") auto
    show ?thesis
    proof (cases rest)
      case Nil
      with cur have one: "notify_current zone = [acl]" by simp
      from timer_step_idle [OF one, of e io] r5
      have step: "xfrd_handle_notify_send e zone io {NETIO_EVENT_TIMEOUT} =
          Inr (notify_disable (zone\<lparr>notify_current := [], notify_retry := 0\<rparr>) io)" by simp
      from prems(3) one r5 have "es = []" by simp
      with step one r5 show ?thesis
        by (simp add: notify_disable_def Let_def sends_def)
    next
      case (Cons b rest')
      with cur have two: "notify_current zone = acl # b # rest'" by simp
      let ?z = "zone\<lparr>notify_current := b # rest', notify_retry := 0\<rparr>"
      from timer_step_advance [OF two, of e io] r5
      have step: "xfrd_handle_notify_send e zone io {NETIO_EVENT_TIMEOUT} =
          xfrd_notify_send_udp e ?z io" by simp
      from send_udp_Inr [of ?z e io] obtain zone1 io1
        where s: "xfrd_notify_send_udp e ?z io = Inr (zone1, io1)" by auto
      note f = send_udp_fields [OF s]
      have c: "notify_current zone1 = b # rest'" and rr: "notify_retry zone1 = 0"
        using f(1,2) by simp_all
      have "length es + notify_retry zone1 = 6 * length (notify_current zone1)"
        using prems(3) c rr two r5 by simp
      moreover have "notify_current zone1 \<noteq> []" "notify_retry zone1 \<le> 5"
        using c rr by simp_all
      ultimately obtain zone' io' where
        r: "timer_run es zone1 io1 = Inr (zone', io')" "notify_current zone' = []"
          "fd (notify_send_handler zone') = -1" "timeout (notify_send_handler zone') = Null"
          "timer_retries es zone1 io1 + notify_retry zone1 = 5 * length (notify_current zone1)"
          "sends io' + notify_retry zone1 + 1 = sends io1 + 6 * length (notify_current zone1)"
        using IH [of zone1 io1] by blast
      have "timer_retries (e # es) zone io = timer_retries es zone1 io1"
        using step s c two by simp
      moreover have "timer_run (e # es) zone io = Inr (zone', io')"
        using step s r(1) by simp
      ultimately show ?thesis using r(2-6) c rr two r5 f(12) by simp
    qed
  qed
qed

lemma timer_run_still_active:
  "notify_current zone \<noteq> [] \<Longrightarrow> notify_retry zone \<le> 5 \<Longrightarrow>
   length es + notify_retry zone < 6 * length (notify_current zone) \<Longrightarrow>
   \<exists>zone' io'. timer_run es zone io = Inr (zone', io') \<and> notify_current zone' \<noteq> []"
proof (induction es arbitrary: zone io)
  case Nil
  then show ?case by simp
next
  case (Cons e es)
  note IH = Cons.IH and prems = Cons.prems
  show ?case
  proof (cases "notify_retry zone < 5")
    case True
    let ?z = "zone\<lparr>notify_retry := notify_retry zone + 1\<rparr>"
    from prems True have step: "xfrd_handle_notify_send e zone io {NETIO_EVENT_TIMEOUT} =
        xfrd_notify_send_udp e ?z io"
      by (intro timer_step_retry) auto
    from prems send_udp_Inr [of ?z e io] obtain zone1 io1
      where s: "xfrd_notify_send_udp e ?z io = Inr (zone1, io1)" by auto
    note f = send_udp_fields [OF s]
    have "length es + notify_retry zone1 < 6 * length (notify_current zone1)"
      "notify_current zone1 \<noteq> []" "notify_retry zone1 \<le> 5"
      using prems True f(1,2) by simp_all
    from IH [OF this(2,3,1), of io1] step s show ?thesis by simp
  next
    case False
    with prems have r5: "notify_retry zone = 5" by simp
    from prems(1) obtain acl rest where cur: "notify_current zone = acl # rest"
      by (cases "notify_current zone") auto
    from prems(3) cur r5 obtain b rest' where "rest = b # rest'"
      by (cases rest) auto
    with cur have two: "notify_current zone = acl # b # rest'" by simp
    let ?z = "zone\<lparr>notify_current := b # rest', notify_retry := 0\<rparr>"
    from timer_step_advance [OF two, of e io] r5
    have step: "xfrd_handle_notify_send e zone io {NETIO_EVENT_TIMEOUT} =
        xfrd_notify_send_udp e ?z io" by simp
    from send_udp_Inr [of ?z e io] obtain zone1 io1
      where s: "xfrd_notify_send_udp e ?z io = Inr (zone1, io1)" by auto
    note f = send_udp_fields [OF s]
    have "length es + notify_retry zone1 < 6 * length (notify_current zone1)"
      "notify_current zone1 \<noteq> []" "notify_retry zone1 \<le> 5"
      using prems two r5 f(1,2) by simp_all
    from IH [OF this(2,3,1), of io1] step s show ?thesis by simp
  qed
qed

subsection \<open>Timer registration and shutdown\<close>

lemma transition_active_pre:
  "notify_transition e zone io evs = Inr (zone2, io2) \<Longrightarrow> notify_current zone2 \<noteq> [] \<Longrightarrow>
   notify_current zone \<noteq> []"
  unfolding notify_transition_def Let_def
  by (auto simp: xfrd_notify_next_def split: if_splits option.splits)


lemma transition_timeout:
  "notify_transition e zone io evs = Inr (zone2, io2) \<Longrightarrow> notify_current zone2 \<noteq> [] \<Longrightarrow>
   timeout (notify_send_handler zone2) = timeout (notify_send_handler zone)"
  unfolding notify_transition_def Let_def
  by (auto simp: xfrd_notify_next_def notify_disable_def Let_def
      split: if_splits option.splits list.splits)

lemma close_notify_fds_fst:
  "fst (close_notify_fds tree io) =
     map (\<lambda>(k, zone). (k, zone\<lparr>notify_send_handler := (notify_send_handler zone)\<lparr>fd := -1\<rparr>\<rparr>)) tree"
  by (induction tree io rule: close_notify_fds.induct)
     (auto simp: Let_def split: prod.splits)

lemma close_notify_fds_snd:
  "snd (close_notify_fds tree io) = io @ map Close (open_fds tree)"
  by (induction tree io rule: close_notify_fds.induct)
     (auto simp: Let_def split: prod.splits)


subsection \<open>Arm\<close>

lemma arm_zone_fields:
  assumes "notify (options zone) \<noteq> []"
  shows "xfrd_send_notify_zone t new_soa zone =
     zone\<lparr>current_soa := new_soa, notify_retry := 0, notify_current := notify (options zone),
          notify_send_handler := (notify_send_handler zone)\<lparr>timeout := NotifyTimeout\<rparr>,
          notify_timeout := (notify_timeout zone)\<lparr>tv_sec := t, tv_nsec := 0\<rparr>\<rparr>"
  using assms by (simp add: xfrd_send_notify_zone_def Let_def)

lemma arm_zone_noop:
  "notify (options zone) = [] \<Longrightarrow> xfrd_send_notify_zone t new_soa zone = zone"
  by (simp add: xfrd_send_notify_zone_def)

lemma arm_zone_frame:
  "fd (notify_send_handler (xfrd_send_notify_zone t new_soa zone)) = fd (notify_send_handler zone)"
  "notify_query_id (xfrd_send_notify_zone t new_soa zone) = notify_query_id zone"
  "notify_retry (xfrd_send_notify_zone t new_soa zone) \<le> notify_retry zone"
  by (simp_all add: xfrd_send_notify_zone_def Let_def)

lemma send_notify_found:
  "map_of tree dn = Some zone \<Longrightarrow>
   xfrd_send_notify t tree io dn new_soa =
     Inr (AList.update dn (xfrd_send_notify_zone t new_soa zone) tree, io)"
  by (simp add: xfrd_send_notify_def)


subsection \<open>Retries of a run of timer expiries\<close>

lemma timer_retries_idle: "notify_current zone = [] \<Longrightarrow> timer_retries es zone io = 0"
  by (cases es) (simp_all add: xfrd_handle_notify_send_def)

lemma timer_retries_bound:
  "notify_current zone \<noteq> [] \<Longrightarrow> notify_retry zone \<le> 5 \<Longrightarrow>
   timer_retries es zone io + notify_retry zone \<le> 5 * length (notify_current zone)"
proof (induction es arbitrary: zone io)
  case Nil
  then show ?case by (cases "notify_current zone") simp_all
next
  case (Cons e es)
  note IH = Cons.IH and prems = Cons.prems
  show ?case
  proof (cases "notify_retry zone < 5")
    case True
    let ?z = "zone\<lparr>notify_retry := notify_retry zone + 1\<rparr>"
    from prems True have step: "xfrd_handle_notify_send e zone io {NETIO_EVENT_TIMEOUT} =
        xfrd_notify_send_udp e ?z io"
      by (intro timer_step_retry) auto
    from prems send_udp_Inr [of ?z e io] obtain zone1 io1
      where s: "xfrd_notify_send_udp e ?z io = Inr (zone1, io1)" by auto
    note f = send_udp_fields [OF s]
    have "notify_current zone1 \<noteq> []" "notify_retry zone1 \<le> 5"
      using prems True f(1,2) by simp_all
    from IH [OF this, of io1] step s f(1,2) show ?thesis by simp
  next
    case False
    with prems have r5: "notify_retry zone = 5" by simp
    from prems(1) obtain acl rest where cur: "notify_current zone = acl # rest"
      by (cases "notify_current zone") auto
    show ?thesis
    proof (cases rest)
      case Nil
      with cur have one: "notify_current zone = [acl]" by simp
      from timer_step_idle [OF one, of e io] r5
      have step: "xfrd_handle_notify_send e zone io {NETIO_EVENT_TIMEOUT} =
          Inr (notify_disable (zone\<lparr>notify_current := [], notify_retry := 0\<rparr>) io)" by simp
      obtain zone1 io1 where d: "notify_disable (zone\<lparr>notify_current := [], notify_retry := 0\<rparr>) io = (zone1, io1)"
        by (cases "notify_disable (zone\<lparr>notify_current := [], notify_retry := 0\<rparr>) io")
      then have "notify_current zone1 = []"
        by (auto simp: notify_disable_def Let_def)
      from timer_retries_idle [OF this, of es io1] this step d one r5 show ?thesis
        by simp
    next
      case (Cons b rest')
      with cur have two: "notify_current zone = acl # b # rest'" by simp
      let ?z = "zone\<lparr>notify_current := b # rest', notify_retry := 0\<rparr>"
      from timer_step_advance [OF two, of e io] r5
      have step: "xfrd_handle_notify_send e zone io {NETIO_EVENT_TIMEOUT} =
          xfrd_notify_send_udp e ?z io" by simp
      from send_udp_Inr [of ?z e io] obtain zone1 io1
        where s: "xfrd_notify_send_udp e ?z io = Inr (zone1, io1)" by auto
      note f = send_udp_fields [OF s]
      have "notify_current zone1 \<noteq> []" "notify_retry zone1 \<le> 5"
        using f(1,2) by simp_all
      from IH [OF this, of io1] step s f(1,2) two r5 show ?thesis by simp
    qed
  qed
qed


subsection \<open>What every dispatcher call preserves\<close>

lemma dispatcher_retry_bound:
  assumes "xfrd_handle_notify_send e zone io evs = Inr (zone', io')"
    and "notify_retry zone \<le> 5"
  shows "notify_retry zone' \<le> 5"
proof -
  from dispatcher_split [OF assms(1)] obtain zone2 io2 where
    z: "notify_current zone \<noteq> []" and
    t: "notify_transition e zone io evs = Inr (zone2, io2)" and
    c: "if notify_current zone2 \<noteq> [] then xfrd_notify_send_udp e zone2 io2 = Inr (zone', io')
        else zone' = zone2 \<and> io' = io2"
    by auto
  from transition_fields(3) [OF t z] assms(2) have b: "notify_retry zone2 \<le> 5" by auto
  show ?thesis
  proof (cases "notify_current zone2 = []")
    case True
    with c b show ?thesis by simp
  next
    case False
    with c have "xfrd_notify_send_udp e zone2 io2 = Inr (zone', io')" by simp
    from send_udp_fields(2) [OF this] b show ?thesis by simp
  qed
qed

lemma dispatcher_idle_no_socket:
  assumes "xfrd_handle_notify_send e zone io evs = Inr (zone', io')"
  shows "idle_no_socket zone'"
proof -
  from dispatcher_split [OF assms(1)] obtain zone2 io2 where
    z: "notify_current zone \<noteq> []" and
    t: "notify_transition e zone io evs = Inr (zone2, io2)" and
    c: "if notify_current zone2 \<noteq> [] then xfrd_notify_send_udp e zone2 io2 = Inr (zone', io')
        else zone' = zone2 \<and> io' = io2"
    by auto
  show ?thesis
  proof (cases "notify_current zone2 = []")
    case True
    with c transition_fields(2) [OF t z] show ?thesis by (simp add: idle_no_socket_def)
  next
    case False
    with c have "xfrd_notify_send_udp e zone2 io2 = Inr (zone', io')" by simp
    from send_udp_fields(3) [OF this] show ?thesis by (simp add: idle_no_socket_def)
  qed
qed

lemma timer_run_sixth_expiry:
  assumes cur: "notify_current zone = acl # rest" and r0: "notify_retry zone = 0"
    and len: "length es = 6"
  shows "\<exists>zone' io'. timer_run es zone io = Inr (zone', io') \<and>
           notify_current zone' = rest \<and> notify_retry zone' = 0"
proof -
  from len obtain fs e where es: "es = fs @ [e]" and l5: "length fs = 5"
    by (cases es rule: rev_cases) auto
  from cur have act: "notify_current zone \<noteq> []" by simp
  from timer_run_same_target [OF act, of fs io] r0 l5 obtain zone1 io1 where
    r: "timer_run fs zone io = Inr (zone1, io1)" "notify_current zone1 = notify_current zone"
       "notify_retry zone1 = 5"
    by auto
  have run: "timer_run es zone io = xfrd_handle_notify_send e zone1 io1 {NETIO_EVENT_TIMEOUT}"
    using es r(1) by (simp add: timer_run_append split: sum.splits prod.splits)
  show ?thesis
  proof (cases rest)
    case Nil
    with cur r(2) have one: "notify_current zone1 = [acl]" by simp
    from timer_step_idle [OF one, of e io1] r(3) run Nil show ?thesis
      by (auto simp: notify_disable_def Let_def)
  next
    case (Cons b rest')
    with cur r(2) have two: "notify_current zone1 = acl # b # rest'" by simp
    let ?z = "zone1\<lparr>notify_current := b # rest', notify_retry := 0\<rparr>"
    from timer_step_advance [OF two, of e io1] r(3)
    have step: "xfrd_handle_notify_send e zone1 io1 {NETIO_EVENT_TIMEOUT} =
        xfrd_notify_send_udp e ?z io1" by simp
    from send_udp_Inr [of ?z e io1] obtain zone' io'
      where s: "xfrd_notify_send_udp e ?z io1 = Inr (zone', io')" by auto
    from send_udp_fields(1,2) [OF s] run step s Cons show ?thesis by simp
  qed
qed


lemma close_notify_fds_idle_no_socket:
  "(k, zone) \<in> set (fst (close_notify_fds tree io)) \<Longrightarrow> idle_no_socket zone"
  by (auto simp: close_notify_fds_fst idle_no_socket_def)


section \<open>Send\<close>

text \<open>
  C6. Every Send (\<^verbatim>\<open>xfrd_notify_send_udp\<close> on a session with a current target) first
  closes the socket that is open, if any, so that at most one socket is open; sets the
  timer to now + 15 seconds before the socket is opened, whatever the outcome of opening
  it (also when \<^verbatim>\<open>xfrd_send_udp\<close> fails with \<open>-1\<close>), and the timer stays registered;
  builds a query with operation code NOTIFY and the authoritative-answer bit set for the
  apex; puts exactly one SOA answer record in it if and only if the serial of the snapshot
  is not zero; signs it exactly when the current target has a key; and records the
  identifier of the query as the pending query id.
\<close>

theorem send_builds_and_sends_query:
  "notify_current zone = acl # rest \<Longrightarrow>
   \<exists>zone' p.
     xfrd_notify_send_udp e zone io =
       Inr (zone', io @ (if fd (notify_send_handler zone) \<noteq> -1
                         then [Close (fd (notify_send_handler zone))] else [])
                      @ [SendUdp acl p (send_fd e)]) \<and>
     zone' = zone\<lparr>notify_send_handler := (notify_send_handler zone)\<lparr>fd := send_fd e\<rparr>,
                  notify_timeout := (notify_timeout zone)\<lparr>tv_sec := now e + 15\<rparr>,
                  notify_query_id := pkt_id p\<rparr> \<and>
     (active_has_timer zone \<longrightarrow> timeout (notify_send_handler zone') = NotifyTimeout) \<and>
     pkt_id p = query_id e \<and> pkt_opcode p = OPCODE_NOTIFY \<and> pkt_aa p \<and> \<not> pkt_qr p \<and>
     pkt_question p = (apex zone, TYPE_SOA, CLASS_IN) \<and>
     (if serial (current_soa zone) \<noteq> 0
      then pkt_ancount p = 1 \<and> pkt_answer p = [(apex zone, current_soa zone)]
      else pkt_ancount p = 0 \<and> pkt_answer p = []) \<and>
     pkt_tsig p = key_options acl"
  by (auto simp: xfrd_notify_send_udp_def Let_def xfrd_setup_packet_def
      xfrd_write_soa_buffer_def xfrd_tsig_sign_request_def XFRD_NOTIFY_RETRY_TIMOUT_def
      active_has_timer_def)

theorem send_builds_and_sends_query_witness:
  "\<exists>zone' p. xfrd_notify_send_udp env_fail (active_zone [acl2, acl1]) [] =
       Inr (zone', [Close 7, SendUdp acl2 p (-1)]) \<and>
     fd (notify_send_handler zone') = -1 \<and> tv_sec (notify_timeout zone') = 115 \<and>
     timeout (notify_send_handler zone') = NotifyTimeout \<and>
     notify_query_id zone' = 42 \<and> pkt_id p = 42 \<and> pkt_ancount p = 1 \<and>
     pkt_answer p = [(''example.org.'', soa5)] \<and> pkt_tsig p = Some ''key2''"
  using send_builds_and_sends_query [of "active_zone [acl2, acl1]" acl2 "[acl1]" env_fail "[]"]
  by (auto simp: active_zone_def idle_zone_def env_fail_def acl2_def soa5_def active_has_timer_def)

section \<open>Shutdown\<close>

text \<open>
  C9. \<^verbatim>\<open>close_notify_fds\<close>, on any tree, closes every open socket (every descriptor
  becomes \<open>-1\<close>, and the system calls made are the closes of the descriptors that were
  open, in tree order) and leaves every other field of every session and the membership
  of the tree as they were.
\<close>

theorem shutdown_closes_sockets_only:
  "fst (close_notify_fds tree io) =
     map (\<lambda>(k, zone). (k, zone\<lparr>notify_send_handler := (notify_send_handler zone)\<lparr>fd := -1\<rparr>\<rparr>)) tree
   \<and> map fst (fst (close_notify_fds tree io)) = map fst tree
   \<and> open_fds (fst (close_notify_fds tree io)) = []
   \<and> snd (close_notify_fds tree io) = io @ map Close (open_fds tree)"
proof -
  have "open_fds (map (\<lambda>(k, zone). (k, zone\<lparr>notify_send_handler :=
           (notify_send_handler zone)\<lparr>fd := -1\<rparr>\<rparr>)) t) = []" for t
    by (induction t) auto
  moreover have "map fst (map (\<lambda>(k, zone). (k, zone\<lparr>notify_send_handler :=
           (notify_send_handler zone)\<lparr>fd := -1\<rparr>\<rparr>)) tree) = map fst tree"
    by (induction tree) auto
  ultimately show ?thesis
    by (simp add: close_notify_fds_fst close_notify_fds_snd)
qed

theorem shutdown_closes_sockets_only_witness:
  "close_notify_fds [(''a.'', active_zone [acl1]), (''b.'', idle_zone [acl2])] [] =
     ([(''a.'', (active_zone [acl1])\<lparr>notify_send_handler := \<lparr>fd = -1, timeout = NotifyTimeout\<rparr>\<rparr>),
       (''b.'', idle_zone [acl2])], [Close 7])"
  using shutdown_closes_sockets_only [of "[(''a.'', active_zone [acl1]), (''b.'', idle_zone [acl2])]" "[]"]
  by (simp add: active_zone_def idle_zone_def prod_eq_iff)

section \<open>Arm\<close>

text \<open>
  C5. For every session whose zone has a configured (non-empty) target list,
  \<^verbatim>\<open>xfrd_send_notify\<close> copies the supplied SOA snapshot into the session, sets the retry
  count to 0, sets the current target to the first target of the list, registers the
  timer and sets the deadline to now, whatever the state of the session was. If the zone
  has no target list, the call changes nothing at all: the tree, with the stored SOA
  snapshot, and the sequence of system calls are returned as they were.
\<close>

theorem arm_sets_session:
  "map_of tree dn = Some zone \<Longrightarrow>
   (notify (options zone) \<noteq> [] \<longrightarrow>
      (\<exists>tree' zone'. xfrd_send_notify t tree io dn new_soa = Inr (tree', io) \<and>
         map_of tree' dn = Some zone' \<and>
         current_soa zone' = new_soa \<and> notify_retry zone' = 0 \<and>
         notify_current zone' = notify (options zone) \<and>
         hd (notify_current zone') = hd (notify (options zone)) \<and>
         timeout (notify_send_handler zone') = NotifyTimeout \<and>
         notify_timeout zone' = \<lparr>tv_sec = t, tv_nsec = 0\<rparr>))
   \<and> (notify (options zone) = [] \<longrightarrow>
        xfrd_send_notify t tree io dn new_soa = Inr (tree, io))"
  by (simp add: send_notify_found arm_zone_fields arm_zone_noop update_conv' update_triv)

theorem arm_sets_session_witness:
  "(\<exists>tree' zone'. xfrd_send_notify 100 [(''example.org.'', active_zone [acl1, acl2])] []
        ''example.org.'' soa0 = Inr (tree', []) \<and>
      map_of tree' ''example.org.'' = Some zone' \<and> current_soa zone' = soa0 \<and>
      notify_retry zone' = 0 \<and> notify_current zone' = [acl1, acl2] \<and>
      notify_timeout zone' = \<lparr>tv_sec = 100, tv_nsec = 0\<rparr>)
   \<and> xfrd_send_notify 100 [(''example.org.'', active_zone [])] [] ''example.org.'' soa0 =
       Inr ([(''example.org.'', active_zone [])], [])"
  using arm_sets_session [of "[(''example.org.'', active_zone [acl1, acl2])]" "''example.org.''"
      "active_zone [acl1, acl2]" 100 "[]" soa0]
    arm_sets_session [of "[(''example.org.'', active_zone [])]" "''example.org.''"
      "active_zone []" 100 "[]" soa0]
  by (auto simp: active_zone_def idle_zone_def)


text \<open>
  C10. \<^verbatim>\<open>xfrd_send_notify\<close> never closes, opens or replaces the socket of the session
  and never changes the pending query id: it makes no system call, the descriptor and the
  query id of the session are the ones it had, so that the reply validator accepts after
  the call exactly the packets it accepted before it, and the other sessions of the tree
  are untouched. A socket that was open stays open until the next Send, which closes it
  before it sends to the first target.
\<close>

theorem arm_keeps_socket_and_query_id:
  "map_of tree dn = Some zone \<Longrightarrow>
   \<exists>tree' zone'. xfrd_send_notify t tree io dn new_soa = Inr (tree', io) \<and>
     map_of tree' dn = Some zone' \<and>
     fd (notify_send_handler zone') = fd (notify_send_handler zone) \<and>
     notify_query_id zone' = notify_query_id zone \<and>
     (\<forall>pkt. xfrd_handle_notify_reply zone' pkt = xfrd_handle_notify_reply zone pkt) \<and>
     (\<forall>k. k \<noteq> dn \<longrightarrow> map_of tree' k = map_of tree k) \<and>
     (notify (options zone) \<noteq> [] \<and> fd (notify_send_handler zone) \<noteq> -1 \<longrightarrow>
        (\<forall>e io1. \<exists>zone2 p. xfrd_notify_send_udp e zone' io1 =
           Inr (zone2, io1 @ [Close (fd (notify_send_handler zone)),
                              SendUdp (hd (notify (options zone))) p (send_fd e)])))"
proof -
  assume m: "map_of tree dn = Some zone"
  let ?z = "xfrd_send_notify_zone t new_soa zone"
  let ?t = "AList.update dn ?z tree"
  have r: "xfrd_send_notify t tree io dn new_soa = Inr (?t, io)"
    using m by (rule send_notify_found)
  have l: "map_of ?t dn = Some ?z" by (simp add: update_conv')
  have o: "\<forall>k. k \<noteq> dn \<longrightarrow> map_of ?t k = map_of tree k" by (simp add: update_conv')
  have v: "\<forall>pkt. xfrd_handle_notify_reply ?z pkt = xfrd_handle_notify_reply zone pkt"
    by (simp add: xfrd_handle_notify_reply_def arm_zone_frame)
  have s: "notify (options zone) \<noteq> [] \<and> fd (notify_send_handler zone) \<noteq> -1 \<longrightarrow>
        (\<forall>e io1. \<exists>zone2 p. xfrd_notify_send_udp e ?z io1 =
           Inr (zone2, io1 @ [Close (fd (notify_send_handler zone)),
                              SendUdp (hd (notify (options zone))) p (send_fd e)]))"
  proof (intro impI allI)
    fix e io1
    assume a: "notify (options zone) \<noteq> [] \<and> fd (notify_send_handler zone) \<noteq> -1"
    then obtain acl rest where n: "notify (options zone) = acl # rest"
      by (cases "notify (options zone)") auto
    then have c: "notify_current ?z = acl # rest" by (simp add: arm_zone_fields)
    from send_udp_io [OF c, of e io1] a n show "\<exists>zone2 p. xfrd_notify_send_udp e ?z io1 =
           Inr (zone2, io1 @ [Close (fd (notify_send_handler zone)),
                              SendUdp (hd (notify (options zone))) p (send_fd e)])"
      by (auto simp: arm_zone_frame)
  qed
  show ?thesis using r l o v s arm_zone_frame(1,2) by blast
qed

theorem arm_keeps_socket_and_query_id_witness:
  "\<exists>tree' zone'. xfrd_send_notify 100 [(''example.org.'', active_zone [acl1, acl2])] []
        ''example.org.'' soa0 = Inr (tree', []) \<and>
      map_of tree' ''example.org.'' = Some zone' \<and>
      fd (notify_send_handler zone') = 7 \<and> notify_query_id zone' = 41 \<and>
      xfrd_handle_notify_reply zone' (reply 41 0) = 1"
  using arm_keeps_socket_and_query_id [of "[(''example.org.'', active_zone [acl1, acl2])]"
      "''example.org.''" "active_zone [acl1, acl2]" 100 "[]" soa0]
  by (auto simp: active_zone_def idle_zone_def reply_def xfrd_handle_notify_reply_def
      RCODE_OK_def)

section \<open>Dispatcher\<close>

text \<open>
  C4. For every session with a current target and an open socket that reads a reply which
  the validator rejects, the dispatcher leaves the current target and the retry count as
  they were and at once sends again to the same target: it reads, closes the socket and
  sends a new query to the current target, whose identifier becomes the pending query
  id. The rejected reply does not consume a retry.
\<close>

theorem reject_resends_without_consuming_retry:
  "notify_current zone = acl # rest \<Longrightarrow> fd (notify_send_handler zone) \<noteq> -1 \<Longrightarrow>
   NETIO_EVENT_READ \<in> evs \<Longrightarrow> read_pkt e = Some pkt \<Longrightarrow>
   xfrd_handle_notify_reply zone pkt = 0 \<Longrightarrow>
   \<exists>zone' p.
     xfrd_handle_notify_send e zone io evs =
       Inr (zone', io @ [ReadUdp (fd (notify_send_handler zone)),
                         Close (fd (notify_send_handler zone)),
                         SendUdp acl p (send_fd e)]) \<and>
     notify_current zone' = notify_current zone \<and>
     notify_retry zone' = notify_retry zone \<and>
     notify_query_id zone' = query_id e \<and>
     pkt_id p = query_id e \<and> pkt_opcode p = OPCODE_NOTIFY \<and>
     tv_sec (notify_timeout zone') = now e + 15"
proof -
  assume a: "notify_current zone = acl # rest" "fd (notify_send_handler zone) \<noteq> -1"
    "NETIO_EVENT_READ \<in> evs" "read_pkt e = Some pkt" "xfrd_handle_notify_reply zone pkt = 0"
  let ?io1 = "io @ [ReadUdp (fd (notify_send_handler zone))]"
  have t: "notify_transition e zone io evs = Inr (zone, ?io1)"
    using a by (simp add: notify_transition_def Let_def)
  have d: "xfrd_handle_notify_send e zone io evs = xfrd_notify_send_udp e zone ?io1"
    using a(1) t by (simp add: xfrd_handle_notify_send_def)
  from send_udp_io [OF a(1), of e ?io1] a(2) obtain zone' p where
    s: "xfrd_notify_send_udp e zone ?io1 =
          Inr (zone', ?io1 @ [Close (fd (notify_send_handler zone))] @ [SendUdp acl p (send_fd e)])"
      "pkt_id p = query_id e" "pkt_opcode p = OPCODE_NOTIFY"
    by auto
  note f = send_udp_fields [OF s(1)]
  show ?thesis using d s f(1,2,6,8) by auto
qed

theorem reject_resends_without_consuming_retry_witness:
  "\<exists>zone' p. xfrd_handle_notify_send (env1\<lparr>read_pkt := Some (reply 40 0)\<rparr>)
       (active_zone [acl1, acl2]) [] {NETIO_EVENT_READ} =
       Inr (zone', [ReadUdp 7, Close 7, SendUdp acl1 p 8]) \<and>
     notify_current zone' = [acl1, acl2] \<and> notify_retry zone' = 2 \<and>
     notify_query_id zone' = 42 \<and> pkt_id p = 42"
  using reject_resends_without_consuming_retry [of "active_zone [acl1, acl2]" acl1 "[acl2]"
      "{NETIO_EVENT_READ}" "env1\<lparr>read_pkt := Some (reply 40 0)\<rparr>" "reply 40 0" "[]"]
  by (auto simp: active_zone_def idle_zone_def env1_def reply_def xfrd_handle_notify_reply_def)


text \<open>
  C7. For every call of the dispatcher, on any event mask: the transition and the call
  return whenever the two assertions hold; and whenever the state that the transition
  for the event leaves still has a current target, the dispatcher performs a Send from
  that state before it returns: its result is the result of \<^verbatim>\<open>xfrd_notify_send_udp\<close> on
  the state the transition left, the system calls it adds are the close of the socket
  that was open and the send of a new NOTIFY query to the current target, the identifier
  of that query is the pending query id, and the timer is set to now + 15 seconds and
  registered. Hence a call that returns a session with a current target has ended with
  that Send, and a call that returns a session without one has returned the state the
  transition left.
\<close>

theorem dispatcher_sends_when_still_active:
  "(notify_current zone \<noteq> [] \<and>
    (NETIO_EVENT_READ \<in> evs \<longrightarrow> fd (notify_send_handler zone) \<noteq> -1) \<longrightarrow>
      (\<exists>zone2 io2. notify_transition e zone io evs = Inr (zone2, io2)) \<and>
      (\<exists>zone' io'. xfrd_handle_notify_send e zone io evs = Inr (zone', io')))
   \<and> (notify_transition e zone io evs = Inr (zone2, io2) \<and> notify_current zone2 \<noteq> [] \<longrightarrow>
        xfrd_handle_notify_send e zone io evs = xfrd_notify_send_udp e zone2 io2 \<and>
        (\<exists>zone' p.
           xfrd_handle_notify_send e zone io evs =
             Inr (zone', io2 @ (if fd (notify_send_handler zone2) \<noteq> -1
                                then [Close (fd (notify_send_handler zone2))] else [])
                             @ [SendUdp (hd (notify_current zone2)) p (send_fd e)]) \<and>
           notify_current zone' = notify_current zone2 \<and>
           notify_retry zone' = notify_retry zone2 \<and>
           pkt_id p = query_id e \<and> pkt_opcode p = OPCODE_NOTIFY \<and> pkt_aa p \<and>
           notify_query_id zone' = query_id e \<and>
           fd (notify_send_handler zone') = send_fd e \<and>
           tv_sec (notify_timeout zone') = now e + 15 \<and>
           (active_has_timer zone \<longrightarrow> timeout (notify_send_handler zone') = NotifyTimeout)))
   \<and> (xfrd_handle_notify_send e zone io evs = Inr (zone', io') \<and> notify_current zone' \<noteq> [] \<longrightarrow>
        (\<exists>zone3 io3. notify_transition e zone io evs = Inr (zone3, io3) \<and>
           notify_current zone3 \<noteq> [] \<and>
           xfrd_notify_send_udp e zone3 io3 = Inr (zone', io')))
   \<and> (xfrd_handle_notify_send e zone io evs = Inr (zone', io') \<and> notify_current zone' = [] \<longrightarrow>
        notify_transition e zone io evs = Inr (zone', io'))"
proof (intro conjI impI)
  assume a: "notify_current zone \<noteq> [] \<and>
    (NETIO_EVENT_READ \<in> evs \<longrightarrow> fd (notify_send_handler zone) \<noteq> -1)"
  then show "\<exists>zone2 io2. notify_transition e zone io evs = Inr (zone2, io2)"
    by (intro transition_Inr) auto
  from a show "\<exists>zone' io'. xfrd_handle_notify_send e zone io evs = Inr (zone', io')"
    by (intro dispatcher_Inr) auto
next
  assume a: "notify_transition e zone io evs = Inr (zone2, io2) \<and> notify_current zone2 \<noteq> []"
  then have t: "notify_transition e zone io evs = Inr (zone2, io2)"
    and act: "notify_current zone2 \<noteq> []" by simp_all
  from transition_active_pre [OF t act] have z: "notify_current zone \<noteq> []" .
  show d: "xfrd_handle_notify_send e zone io evs = xfrd_notify_send_udp e zone2 io2"
    using z t act by (simp add: xfrd_handle_notify_send_def)
  from act obtain acl rest where cur: "notify_current zone2 = acl # rest"
    by (cases "notify_current zone2") auto
  from send_udp_io [OF cur, of e io2] obtain zone' p where
    s: "xfrd_notify_send_udp e zone2 io2 =
          Inr (zone', io2 @ (if fd (notify_send_handler zone2) \<noteq> -1
                             then [Close (fd (notify_send_handler zone2))] else [])
                          @ [SendUdp acl p (send_fd e)])"
    and p: "pkt_id p = query_id e" "pkt_opcode p = OPCODE_NOTIFY" "pkt_aa p"
    by blast
  note f = send_udp_fields [OF s]
  have tm: "active_has_timer zone \<longrightarrow> timeout (notify_send_handler zone') = NotifyTimeout"
    using transition_timeout [OF t act] f(5) z by (simp add: active_has_timer_def)
  have h: "hd (notify_current zone2) = acl" using cur by simp
  show "\<exists>zone' p.
           xfrd_handle_notify_send e zone io evs =
             Inr (zone', io2 @ (if fd (notify_send_handler zone2) \<noteq> -1
                                then [Close (fd (notify_send_handler zone2))] else [])
                             @ [SendUdp (hd (notify_current zone2)) p (send_fd e)]) \<and>
           notify_current zone' = notify_current zone2 \<and>
           notify_retry zone' = notify_retry zone2 \<and>
           pkt_id p = query_id e \<and> pkt_opcode p = OPCODE_NOTIFY \<and> pkt_aa p \<and>
           notify_query_id zone' = query_id e \<and>
           fd (notify_send_handler zone') = send_fd e \<and>
           tv_sec (notify_timeout zone') = now e + 15 \<and>
           (active_has_timer zone \<longrightarrow> timeout (notify_send_handler zone') = NotifyTimeout)"
    unfolding d h using s p tm f(1,2,4,6,8) by blast
next
  assume a: "xfrd_handle_notify_send e zone io evs = Inr (zone', io') \<and> notify_current zone' \<noteq> []"
  from dispatcher_split [of e zone io evs zone' io'] a obtain zone3 io3 where
    t: "notify_transition e zone io evs = Inr (zone3, io3)" and
    c: "if notify_current zone3 \<noteq> [] then xfrd_notify_send_udp e zone3 io3 = Inr (zone', io')
        else zone' = zone3 \<and> io' = io3"
    by auto
  from c a have act: "notify_current zone3 \<noteq> []" by (auto split: if_splits)
  with c t show "\<exists>zone3 io3. notify_transition e zone io evs = Inr (zone3, io3) \<and>
           notify_current zone3 \<noteq> [] \<and> xfrd_notify_send_udp e zone3 io3 = Inr (zone', io')"
    by auto
next
  assume a: "xfrd_handle_notify_send e zone io evs = Inr (zone', io') \<and> notify_current zone' = []"
  from dispatcher_split [of e zone io evs zone' io'] a obtain zone3 io3 where
    t: "notify_transition e zone io evs = Inr (zone3, io3)" and
    c: "if notify_current zone3 \<noteq> [] then xfrd_notify_send_udp e zone3 io3 = Inr (zone', io')
        else zone' = zone3 \<and> io' = io3"
    by auto
  have "notify_current zone3 = []"
  proof (rule ccontr)
    assume n: "notify_current zone3 \<noteq> []"
    with c have "xfrd_notify_send_udp e zone3 io3 = Inr (zone', io')" by simp
    from send_udp_fields(3) [OF this] a show False by simp
  qed
  with c t show "notify_transition e zone io evs = Inr (zone', io')" by simp
qed

theorem dispatcher_sends_when_still_active_witness:
  "notify_transition env1 (active_zone [acl1, acl2]) [] {NETIO_EVENT_TIMEOUT} =
     Inr ((active_zone [acl1, acl2])\<lparr>notify_retry := 3\<rparr>, []) \<and>
   notify_current ((active_zone [acl1, acl2])\<lparr>notify_retry := 3\<rparr>) \<noteq> [] \<and>
   (\<exists>zone' p. xfrd_handle_notify_send env1 (active_zone [acl1, acl2]) [] {NETIO_EVENT_TIMEOUT} =
       Inr (zone', [Close 7, SendUdp acl1 p 8]) \<and>
     notify_current zone' = [acl1, acl2] \<and> notify_retry zone' = 3 \<and>
     pkt_id p = 42 \<and> notify_query_id zone' = 42 \<and> fd (notify_send_handler zone') = 8 \<and>
     tv_sec (notify_timeout zone') = 115 \<and> timeout (notify_send_handler zone') = NotifyTimeout)"
proof -
  let ?a = "active_zone [acl1, acl2]"
  let ?b = "(active_zone [acl1, acl2])\<lparr>notify_retry := 3\<rparr>"
  have t: "notify_transition env1 ?a [] {NETIO_EVENT_TIMEOUT} = Inr (?b, [])"
    by (simp add: notify_transition_def Let_def XFRD_NOTIFY_MAX_NUM_def active_zone_def
        idle_zone_def)
  have act: "notify_current ?b \<noteq> []" by (simp add: active_zone_def idle_zone_def)
  have tm: "active_has_timer ?a" by (simp add: active_has_timer_def active_zone_def idle_zone_def)
  have v: "fd (notify_send_handler ?b) = 7" "hd (notify_current ?b) = acl1"
    "notify_current ?b = [acl1, acl2]" "notify_retry ?b = 3"
    "query_id env1 = 42" "send_fd env1 = 8" "now env1 = 100"
    by (simp_all add: active_zone_def idle_zone_def env1_def)
  from dispatcher_sends_when_still_active [where zone = ?a and e = env1
      and io = "[]" and evs = "{NETIO_EVENT_TIMEOUT}" and ?zone2.0 = ?b and ?io2.0 = "[]"]
    t act tm
  have "\<exists>zone' p. xfrd_handle_notify_send env1 ?a [] {NETIO_EVENT_TIMEOUT} =
       Inr (zone', [] @ (if fd (notify_send_handler ?b) \<noteq> -1
                         then [Close (fd (notify_send_handler ?b))] else [])
                    @ [SendUdp (hd (notify_current ?b)) p (send_fd env1)]) \<and>
     notify_current zone' = notify_current ?b \<and> notify_retry zone' = notify_retry ?b \<and>
     pkt_id p = query_id env1 \<and> notify_query_id zone' = query_id env1 \<and>
     fd (notify_send_handler zone') = send_fd env1 \<and>
     tv_sec (notify_timeout zone') = now env1 + 15 \<and>
     timeout (notify_send_handler zone') = NotifyTimeout"
    by blast
  then have "\<exists>zone' p. xfrd_handle_notify_send env1 ?a [] {NETIO_EVENT_TIMEOUT} =
       Inr (zone', [Close 7, SendUdp acl1 p 8]) \<and>
     notify_current zone' = [acl1, acl2] \<and> notify_retry zone' = 3 \<and>
     pkt_id p = 42 \<and> notify_query_id zone' = 42 \<and> fd (notify_send_handler zone') = 8 \<and>
     tv_sec (notify_timeout zone') = 115 \<and> timeout (notify_send_handler zone') = NotifyTimeout"
    unfolding v by simp
  with t act show ?thesis by blast
qed

section \<open>Termination of a run of timer expiries\<close>

text \<open>
  C8. For every session that has just been armed by \<^verbatim>\<open>xfrd_send_notify\<close> on a zone with
  \<open>n > 0\<close> targets and then gets timer expiries only: after exactly \<open>6 * n\<close> expiries the
  session is idle (no current target, no socket, timer cancelled), and it still has a
  current target after any smaller number of them. The retries of the run, the expiries
  answered by sending again to the same target, are \<open>XFRD_NOTIFY_MAX_NUM * n\<close> over the
  whole run and at most that many over any run of expiries; the queries sent over the
  whole run are \<open>6 * n - 1\<close>, that is \<open>n\<close> first queries and \<open>5 * n - 1\<close> repeats.
\<close>

theorem timer_only_run_reaches_idle:
  "map_of tree dn = Some zone0 \<Longrightarrow> notify (options zone0) \<noteq> [] \<Longrightarrow>
   xfrd_send_notify t tree io0 dn new_soa = Inr (tree1, io1) \<Longrightarrow>
   map_of tree1 dn = Some zone \<Longrightarrow>
   (length es = 6 * length (notify (options zone0)) \<longrightarrow>
      (\<exists>zone' io'. timer_run es zone io = Inr (zone', io') \<and>
         notify_current zone' = [] \<and> fd (notify_send_handler zone') = -1 \<and>
         timeout (notify_send_handler zone') = Null \<and>
         timer_retries es zone io = XFRD_NOTIFY_MAX_NUM * length (notify (options zone0)) \<and>
         sends io' + 1 = sends io + 6 * length (notify (options zone0))))
   \<and> (length es < 6 * length (notify (options zone0)) \<longrightarrow>
      (\<exists>zone' io'. timer_run es zone io = Inr (zone', io') \<and> notify_current zone' \<noteq> []))
   \<and> timer_retries es zone io \<le> XFRD_NOTIFY_MAX_NUM * length (notify (options zone0))"
proof -
  assume m: "map_of tree dn = Some zone0" and n: "notify (options zone0) \<noteq> []"
    and r: "xfrd_send_notify t tree io0 dn new_soa = Inr (tree1, io1)"
    and l: "map_of tree1 dn = Some zone"
  from r l m have z: "zone = xfrd_send_notify_zone t new_soa zone0"
    by (auto simp: send_notify_found update_conv')
  have c: "notify_current zone = notify (options zone0)" and rr: "notify_retry zone = 0"
    using z n by (simp_all add: arm_zone_fields)
  have act: "notify_current zone \<noteq> []" and le: "notify_retry zone \<le> 5"
    using c rr n by simp_all
  have a: "length es = 6 * length (notify (options zone0)) \<longrightarrow>
      (\<exists>zone' io'. timer_run es zone io = Inr (zone', io') \<and>
         notify_current zone' = [] \<and> fd (notify_send_handler zone') = -1 \<and>
         timeout (notify_send_handler zone') = Null \<and>
         timer_retries es zone io = XFRD_NOTIFY_MAX_NUM * length (notify (options zone0)) \<and>
         sends io' + 1 = sends io + 6 * length (notify (options zone0)))"
  proof
    assume "length es = 6 * length (notify (options zone0))"
    then have "length es + notify_retry zone = 6 * length (notify_current zone)"
      using c rr by simp
    from timer_run_to_idle [OF act le this, of io] c rr show "\<exists>zone' io'. timer_run es zone io = Inr (zone', io') \<and>
         notify_current zone' = [] \<and> fd (notify_send_handler zone') = -1 \<and>
         timeout (notify_send_handler zone') = Null \<and>
         timer_retries es zone io = XFRD_NOTIFY_MAX_NUM * length (notify (options zone0)) \<and>
         sends io' + 1 = sends io + 6 * length (notify (options zone0))"
      by (auto simp: XFRD_NOTIFY_MAX_NUM_def)
  qed
  have b: "length es < 6 * length (notify (options zone0)) \<longrightarrow>
      (\<exists>zone' io'. timer_run es zone io = Inr (zone', io') \<and> notify_current zone' \<noteq> [])"
  proof
    assume "length es < 6 * length (notify (options zone0))"
    then have "length es + notify_retry zone < 6 * length (notify_current zone)"
      using c rr by simp
    from timer_run_still_active [OF act le this, of io]
    show "\<exists>zone' io'. timer_run es zone io = Inr (zone', io') \<and> notify_current zone' \<noteq> []" .
  qed
  have "timer_retries es zone io \<le> XFRD_NOTIFY_MAX_NUM * length (notify (options zone0))"
    using timer_retries_bound [OF act le, of es io] c rr by (simp add: XFRD_NOTIFY_MAX_NUM_def)
  with a b show ?thesis by blast
qed

theorem timer_only_run_reaches_idle_witness:
  "\<exists>zone' io'. timer_run (replicate 12 env1)
        (xfrd_send_notify_zone 100 soa5 (idle_zone [acl1, acl2])) [] = Inr (zone', io') \<and>
     notify_current zone' = [] \<and> fd (notify_send_handler zone') = -1 \<and>
     timer_retries (replicate 12 env1)
        (xfrd_send_notify_zone 100 soa5 (idle_zone [acl1, acl2])) [] = 10 \<and>
     sends io' = 11"
proof -
  let ?idle = "idle_zone [acl1, acl2]"
  let ?z = "xfrd_send_notify_zone 100 soa5 ?idle"
  have 1: "map_of [(''example.org.'', ?idle)] ''example.org.'' = Some ?idle" by simp
  have 2: "notify (options ?idle) \<noteq> []" by (simp add: idle_zone_def)
  have 3: "xfrd_send_notify 100 [(''example.org.'', ?idle)] [] ''example.org.'' soa5 =
             Inr ([(''example.org.'', ?z)], [])"
    by (simp add: xfrd_send_notify_def)
  have 4: "map_of [(''example.org.'', ?z)] ''example.org.'' = Some ?z" by simp
  have 5: "length (notify (options ?idle)) = 2" by (simp add: idle_zone_def)
  from timer_only_run_reaches_idle [of "[(''example.org.'', ?idle)]" "''example.org.''" ?idle
      100 "[]" soa5 "[(''example.org.'', ?z)]" "[]" ?z "replicate 12 env1" "[]"] 1 2 3 4 5
  show ?thesis by (auto simp: XFRD_NOTIFY_MAX_NUM_def sends_def)
qed

section \<open>Invariants of a session\<close>

text \<open>
  C1, as amended. After every transition of a session (Arm, Send, advance, going idle, a
  dispatcher event, shutdown), a session whose current target pointer is none has no
  socket (\<open>fd = -1\<close>); going idle leaves the pointer none and the socket absent together,
  and a Send leaves a current target with the descriptor that opening the socket
  returned. A session with a current target can be without a socket: it is after Arm of
  a session that had none, and after a Send whose socket open failed.
\<close>

theorem idle_session_has_no_socket:
  "(map_of tree dn = Some zone \<and> idle_no_socket zone \<longrightarrow>
      (\<exists>tree1 zone1. xfrd_send_notify t tree io dn new_soa = Inr (tree1, io) \<and>
         map_of tree1 dn = Some zone1 \<and> idle_no_socket zone1 \<and>
         (notify (options zone) \<noteq> [] \<and> fd (notify_send_handler zone) = -1 \<longrightarrow>
            notify_current zone1 \<noteq> [] \<and> fd (notify_send_handler zone1) = -1)))
   \<and> (xfrd_notify_send_udp e zone io = Inr (zone', io') \<longrightarrow>
        idle_no_socket zone' \<and> notify_current zone' \<noteq> [] \<and>
        fd (notify_send_handler zone') = send_fd e)
   \<and> (xfrd_notify_next zone io = Inr (zone', io') \<longrightarrow> idle_no_socket zone')
   \<and> (notify_current (fst (notify_disable zone io)) = [] \<and>
        fd (notify_send_handler (fst (notify_disable zone io))) = -1)
   \<and> (xfrd_handle_notify_send e zone io evs = Inr (zone', io') \<longrightarrow> idle_no_socket zone')
   \<and> (\<forall>(k, zone2) \<in> set (fst (close_notify_fds tree io)). idle_no_socket zone2)"
proof (intro conjI impI)
  assume a: "map_of tree dn = Some zone \<and> idle_no_socket zone"
  let ?z = "xfrd_send_notify_zone t new_soa zone"
  have "idle_no_socket ?z"
    using a by (cases "notify (options zone) = []")
      (simp_all add: arm_zone_noop arm_zone_fields idle_no_socket_def)
  moreover have "notify (options zone) \<noteq> [] \<and> fd (notify_send_handler zone) = -1 \<longrightarrow>
      notify_current ?z \<noteq> [] \<and> fd (notify_send_handler ?z) = -1"
    by (simp add: arm_zone_fields)
  moreover have "map_of (AList.update dn ?z tree) dn = Some ?z" by (simp add: update_conv')
  ultimately show "\<exists>tree1 zone1. xfrd_send_notify t tree io dn new_soa = Inr (tree1, io) \<and>
         map_of tree1 dn = Some zone1 \<and> idle_no_socket zone1 \<and>
         (notify (options zone) \<noteq> [] \<and> fd (notify_send_handler zone) = -1 \<longrightarrow>
            notify_current zone1 \<noteq> [] \<and> fd (notify_send_handler zone1) = -1)"
    using a send_notify_found [of tree dn zone t io new_soa] by blast
next
  assume s: "xfrd_notify_send_udp e zone io = Inr (zone', io')"
  from send_udp_fields(3) [OF s] show "idle_no_socket zone'" by (simp add: idle_no_socket_def)
  from send_udp_fields(3) [OF s] show "notify_current zone' \<noteq> []" .
  from send_udp_fields(4) [OF s] show "fd (notify_send_handler zone') = send_fd e" .
next
  assume "xfrd_notify_next zone io = Inr (zone', io')"
  from notify_next_fields(3) [OF this] show "idle_no_socket zone'"
    by (simp add: idle_no_socket_def)
next
  show "notify_current (fst (notify_disable zone io)) = []"
    by (simp add: notify_disable_def Let_def)
  show "fd (notify_send_handler (fst (notify_disable zone io))) = -1"
    by (simp add: notify_disable_def Let_def)
next
  assume "xfrd_handle_notify_send e zone io evs = Inr (zone', io')"
  then show "idle_no_socket zone'" by (rule dispatcher_idle_no_socket)
next
  show "\<forall>(k, zone2) \<in> set (fst (close_notify_fds tree io)). idle_no_socket zone2"
    using close_notify_fds_idle_no_socket by blast
qed

theorem idle_iff_no_socket_counterexample:
  "idle_iff_no_socket (idle_zone [acl1]) \<and>
   map_option idle_iff_no_socket
     (tree_zone_of (xfrd_send_notify 100 [(''example.org.'', idle_zone [acl1])] []
        ''example.org.'' soa5) ''example.org.'') = Some False \<and>
   idle_iff_no_socket (active_zone [acl1]) \<and>
   map_option idle_iff_no_socket
     (zone_of (xfrd_notify_send_udp env_fail (active_zone [acl1]) [])) = Some False"
  by (simp add: idle_iff_no_socket_def tree_zone_of_def zone_of_def xfrd_send_notify_def
      xfrd_send_notify_zone_def xfrd_notify_send_udp_def Let_def idle_zone_def active_zone_def
      env_fail_def)

theorem idle_session_has_no_socket_witness:
  "(\<exists>tree1 zone1. xfrd_send_notify 100 [(''example.org.'', idle_zone [acl1])] []
        ''example.org.'' soa5 = Inr (tree1, []) \<and>
      map_of tree1 ''example.org.'' = Some zone1 \<and> idle_no_socket zone1 \<and>
      notify_current zone1 \<noteq> [] \<and> fd (notify_send_handler zone1) = -1)
   \<and> (\<exists>zone1 io1. xfrd_handle_notify_send env1 ((active_zone [acl1])\<lparr>notify_retry := 5\<rparr>) []
        {NETIO_EVENT_TIMEOUT} = Inr (zone1, io1) \<and> idle_no_socket zone1)"
proof -
  let ?i = "idle_zone [acl1]"
  let ?b = "(active_zone [acl1])\<lparr>notify_retry := 5\<rparr>"
  have "map_of [(''example.org.'', ?i)] ''example.org.'' = Some ?i \<and> idle_no_socket ?i"
    "notify (options ?i) \<noteq> [] \<and> fd (notify_send_handler ?i) = -1"
    by (simp_all add: idle_no_socket_def idle_zone_def)
  with idle_session_has_no_socket [where tree = "[(''example.org.'', ?i)]"
      and dn = "''example.org.''" and zone = ?i and t = 100 and io = "[]" and new_soa = soa5]
  have 1: "\<exists>tree1 zone1. xfrd_send_notify 100 [(''example.org.'', ?i)] []
        ''example.org.'' soa5 = Inr (tree1, []) \<and>
      map_of tree1 ''example.org.'' = Some zone1 \<and> idle_no_socket zone1 \<and>
      notify_current zone1 \<noteq> [] \<and> fd (notify_send_handler zone1) = -1"
    by blast
  obtain zone1 io1 where
    d: "xfrd_handle_notify_send env1 ?b [] {NETIO_EVENT_TIMEOUT} = Inr (zone1, io1)"
    using dispatcher_Inr [of ?b "{NETIO_EVENT_TIMEOUT}" env1 "[]"]
    by (auto simp: active_zone_def idle_zone_def)
  with idle_session_has_no_socket [where zone = ?b and e = env1 and io = "[]"
      and evs = "{NETIO_EVENT_TIMEOUT}" and zone' = zone1 and io' = io1]
  have "idle_no_socket zone1" by blast
  with 1 d show ?thesis by blast
qed

text \<open>
  C3. The retry count of a session stays in \<open>[0, XFRD_NOTIFY_MAX_NUM]\<close> after every
  completed call of the dispatcher and after Arm, and on a target that only times out,
  starting from retry count 0, the session is still on that target after each of the
  first \<open>XFRD_NOTIFY_MAX_NUM\<close> timer expiries, with the retry count equal to their number,
  and advances to the next target exactly on expiry \<open>XFRD_NOTIFY_MAX_NUM + 1\<close>, the sixth,
  with the retry count reset to 0.
\<close>

theorem retry_count_bounded_advance_on_sixth_timeout:
  "(notify_retry zone \<le> XFRD_NOTIFY_MAX_NUM \<and>
      xfrd_handle_notify_send e zone io evs = Inr (zone', io') \<longrightarrow>
        notify_retry zone' \<le> XFRD_NOTIFY_MAX_NUM)
   \<and> (notify_retry zone \<le> XFRD_NOTIFY_MAX_NUM \<longrightarrow>
        notify_retry (xfrd_send_notify_zone t new_soa zone) \<le> XFRD_NOTIFY_MAX_NUM)
   \<and> (notify_current zone = acl # rest \<and> notify_retry zone = 0 \<and>
        length es \<le> XFRD_NOTIFY_MAX_NUM \<longrightarrow>
        (\<exists>zone1 io1. timer_run es zone io = Inr (zone1, io1) \<and>
           notify_current zone1 = acl # rest \<and> notify_retry zone1 = length es))
   \<and> (notify_current zone = acl # rest \<and> notify_retry zone = 0 \<and>
        length es = XFRD_NOTIFY_MAX_NUM + 1 \<longrightarrow>
        (\<exists>zone1 io1. timer_run es zone io = Inr (zone1, io1) \<and>
           notify_current zone1 = rest \<and> notify_retry zone1 = 0))"
proof (intro conjI impI)
  assume "notify_retry zone \<le> XFRD_NOTIFY_MAX_NUM \<and>
      xfrd_handle_notify_send e zone io evs = Inr (zone', io')"
  then show "notify_retry zone' \<le> XFRD_NOTIFY_MAX_NUM"
    using dispatcher_retry_bound [of e zone io evs zone' io']
    by (simp add: XFRD_NOTIFY_MAX_NUM_def)
next
  assume "notify_retry zone \<le> XFRD_NOTIFY_MAX_NUM"
  then show "notify_retry (xfrd_send_notify_zone t new_soa zone) \<le> XFRD_NOTIFY_MAX_NUM"
    using arm_zone_frame(3) [of t new_soa zone] by simp
next
  assume a: "notify_current zone = acl # rest \<and> notify_retry zone = 0 \<and>
        length es \<le> XFRD_NOTIFY_MAX_NUM"
  then have "notify_current zone \<noteq> []" "notify_retry zone + length es \<le> 5"
    by (simp_all add: XFRD_NOTIFY_MAX_NUM_def)
  from timer_run_same_target [OF this, of io] a
  show "\<exists>zone1 io1. timer_run es zone io = Inr (zone1, io1) \<and>
           notify_current zone1 = acl # rest \<and> notify_retry zone1 = length es"
    by auto
next
  assume a: "notify_current zone = acl # rest \<and> notify_retry zone = 0 \<and>
        length es = XFRD_NOTIFY_MAX_NUM + 1"
  then have "notify_current zone = acl # rest" "notify_retry zone = 0" "length es = 6"
    by (simp_all add: XFRD_NOTIFY_MAX_NUM_def)
  then show "\<exists>zone1 io1. timer_run es zone io = Inr (zone1, io1) \<and>
           notify_current zone1 = rest \<and> notify_retry zone1 = 0"
    by (rule timer_run_sixth_expiry)
qed

theorem retry_count_bounded_advance_on_sixth_timeout_witness:
  "(\<exists>zone1 io1. timer_run (replicate 5 env1) ((active_zone [acl1, acl2])\<lparr>notify_retry := 0\<rparr>) [] =
        Inr (zone1, io1) \<and> notify_current zone1 = [acl1, acl2] \<and> notify_retry zone1 = 5)
   \<and> (\<exists>zone1 io1. timer_run (replicate 6 env1) ((active_zone [acl1, acl2])\<lparr>notify_retry := 0\<rparr>) [] =
        Inr (zone1, io1) \<and> notify_current zone1 = [acl2] \<and> notify_retry zone1 = 0)
   \<and> (\<exists>zone1 io1. xfrd_handle_notify_send env1 ((active_zone [acl1, acl2])\<lparr>notify_retry := 5\<rparr>) []
        {NETIO_EVENT_TIMEOUT} = Inr (zone1, io1) \<and> notify_retry zone1 \<le> 5)"
proof -
  let ?a = "(active_zone [acl1, acl2])\<lparr>notify_retry := 0\<rparr>"
  let ?b = "(active_zone [acl1, acl2])\<lparr>notify_retry := 5\<rparr>"
  have c: "notify_current ?a = acl1 # [acl2]" "notify_retry ?a = 0"
    by (simp_all add: active_zone_def idle_zone_def)
  have 1: "\<exists>zone1 io1. timer_run (replicate 5 env1) ?a [] = Inr (zone1, io1) \<and>
      notify_current zone1 = [acl1, acl2] \<and> notify_retry zone1 = 5"
    using retry_count_bounded_advance_on_sixth_timeout [where zone = ?a and io = "[]"
        and acl = acl1 and rest = "[acl2]" and es = "replicate 5 env1"] c
    by (simp add: XFRD_NOTIFY_MAX_NUM_def)
  have 2: "\<exists>zone1 io1. timer_run (replicate 6 env1) ?a [] = Inr (zone1, io1) \<and>
      notify_current zone1 = [acl2] \<and> notify_retry zone1 = 0"
    using retry_count_bounded_advance_on_sixth_timeout [where zone = ?a and io = "[]"
        and acl = acl1 and rest = "[acl2]" and es = "replicate 6 env1"] c
    by (simp add: XFRD_NOTIFY_MAX_NUM_def)
  obtain zone1 io1 where
    d: "xfrd_handle_notify_send env1 ?b [] {NETIO_EVENT_TIMEOUT} = Inr (zone1, io1)"
    using dispatcher_Inr [of ?b "{NETIO_EVENT_TIMEOUT}" env1 "[]"]
    by (auto simp: active_zone_def idle_zone_def)
  have "notify_retry ?b \<le> XFRD_NOTIFY_MAX_NUM"
    by (simp add: XFRD_NOTIFY_MAX_NUM_def)
  with retry_count_bounded_advance_on_sixth_timeout [of ?b env1 "[]" "{NETIO_EVENT_TIMEOUT}"
        zone1 io1] d
  have 3: "notify_retry zone1 \<le> 5" by (simp add: XFRD_NOTIFY_MAX_NUM_def)
  from 1 2 3 d show ?thesis by blast
qed

end
